theory Spec2Isabelle
  imports Complex_Main
begin

section \<open>Paths\<close>

text \<open>
  A \<open>pathlib.Path\<close> on POSIX is represented by the string that \<open>str(path)\<close> returns.
  \<open>Path\<close> below is the constructor \<open>Path(s)\<close>: it keeps the root (\<open>/\<close>, or \<open>//\<close> for
  exactly two leading separators), drops empty and \<open>.\<close> segments and prints \<open>.\<close> for
  the empty path.
\<close>

type_synonym path = string

definition sep :: char where
  "sep = CHR ''/''"

fun split_sep :: "string \<Rightarrow> string list" where
  "split_sep [] = [[]]"
| "split_sep (c # cs) =
     (if c = sep then [] # split_sep cs
      else (case split_sep cs of [] \<Rightarrow> [[c]] | x # xs \<Rightarrow> (c # x) # xs))"

fun join_sep :: "string list \<Rightarrow> string" where
  "join_sep [] = []"
| "join_sep [x] = x"
| "join_sep (x # y # ys) = x @ sep # join_sep (y # ys)"

definition path_root :: "string \<Rightarrow> string" where
  "path_root s =
     (if take 2 s = [sep, sep] \<and> take 3 s \<noteq> [sep, sep, sep] then [sep, sep]
      else if take 1 s = [sep] then [sep]
      else [])"

definition path_parts :: "string \<Rightarrow> string list" where
  "path_parts s = filter (\<lambda>x. x \<noteq> [] \<and> x \<noteq> ''.'') (split_sep s)"

definition path_str :: "string \<Rightarrow> string list \<Rightarrow> path" where
  "path_str r ps = (if r = [] \<and> ps = [] then ''.'' else r @ join_sep ps)"

definition Path :: "string \<Rightarrow> path" where
  "Path s = path_str (path_root s) (path_parts s)"

text \<open>\<open>posixpath.join(a, b)\<close>, through which \<open>a / b\<close> combines its operands.\<close>

definition posix_join :: "string \<Rightarrow> string \<Rightarrow> string" where
  "posix_join a b =
     (if take 1 b = [sep] then b
      else if a = [] \<or> last a = sep then a @ b
      else a @ sep # b)"

text \<open>The operator \<open>p / s\<close> of pathlib.\<close>

definition joinpath :: "path \<Rightarrow> string \<Rightarrow> path" where
  "joinpath p s = Path (posix_join p s)"

text \<open>\<open>p.parent\<close>: the path without its last segment (itself when it has none).\<close>

definition parent :: "path \<Rightarrow> path" where
  "parent p = path_str (path_root p) (butlast (path_parts p))"

text \<open>
  \<open>str.strip()\<close> on the ASCII range: Python's whitespace there is the characters 9 to 13
  and 28 to 32.
\<close>

definition is_space :: "char \<Rightarrow> bool" where
  "is_space c = (let n = (of_char c :: nat) in (9 \<le> n \<and> n \<le> 13) \<or> (28 \<le> n \<and> n \<le> 32))"

definition strip :: "string \<Rightarrow> string" where
  "strip s = rev (dropWhile is_space (rev (dropWhile is_space s)))"

section \<open>Config file names (config.py)\<close>

text \<open>\<open>s.lstrip("/")\<close> removes every leading separator.\<close>

definition lstrip_sep :: "string \<Rightarrow> string" where
  "lstrip_sep s = dropWhile (\<lambda>c. c = sep) s"

text \<open>\<open>s.replace("/", "__")\<close>.\<close>

fun replace_sep :: "string \<Rightarrow> string" where
  "replace_sep [] = []"
| "replace_sep (c # cs) = (if c = sep then ''__'' @ replace_sep cs else c # replace_sep cs)"

text \<open>
  \<open>mangle_path(path)\<close>. \<open>Path.resolve\<close> depends on the file system (working directory,
  symbolic links), so it is the parameter \<open>rslv\<close>.
\<close>

definition mangle_path :: "(path \<Rightarrow> path) \<Rightarrow> path \<Rightarrow> string" where
  "mangle_path rslv p =
     (let p' = rslv p;
          path_str = replace_sep (lstrip_sep p')
      in path_str @ ''.toml'')"

text \<open>
  Reading a mangled name back from left to right: a pair of underscores is a separator,
  any other character stands for itself.
\<close>

fun unmangle :: "string \<Rightarrow> string" where
  "unmangle [] = []"
| "unmangle [c] = [c]"
| "unmangle (c # d # ds) =
     (if c = CHR ''_'' \<and> d = CHR ''_'' then sep # unmangle ds else c # unmangle (d # ds))"

text \<open>No underscore of the string is directly followed by an underscore or a separator.\<close>

fun plain_underscores :: "string \<Rightarrow> bool" where
  "plain_underscores [] = True"
| "plain_underscores [c] = True"
| "plain_underscores (c # d # ds) =
     (\<not> (c = CHR ''_'' \<and> (d = CHR ''_'' \<or> d = sep)) \<and> plain_underscores (d # ds))"

text \<open>The path starts with exactly one separator.\<close>

fun single_root :: "path \<Rightarrow> bool" where
  "single_root [] = False"
| "single_root [c] = (c = sep)"
| "single_root (c # d # ds) = (c = sep \<and> d \<noteq> sep)"

section \<open>The operating system as the program sees it\<close>

text \<open>
  Values of a parsed TOML document, as \<open>tomllib.loads\<close> returns them: strings, integers,
  floats, booleans, dates and times, arrays (Python lists) and tables (Python dicts, here
  association lists read with \<open>map_of\<close>).
\<close>

datatype toml =
  TStr string
| TInt int
| TFloat real
| TBool bool
| TDateTime string
| TArr "toml list"
| TTable "(string \<times> toml) list"

text \<open>
  Exceptions. \<open>VaihdeError\<close> is the program's own class (module \<open>vaihde.excs\<close>), raised
  with a message. Everything the library raises is a \<open>lib_error\<close>: \<open>OSError\<close> and its
  subclasses with their message, \<open>KeyboardInterrupt\<close>, and any other built-in exception
  under its class name.
\<close>

datatype lib_error = OSError string | KeyboardInterrupt | OtherError string

datatype exc = VaihdeError string | Lib lib_error

text \<open>
  The first argument of \<open>subprocess.run\<close>: an argument vector, or, for a post-command
  that selects the shell, the \<open>run\<close> value of the config as it is.
\<close>

datatype proc_args = Argv "string list" | RawArgs toml

text \<open>
  What \<open>subprocess.run\<close> yields: a completed process with return code, standard output
  and standard error, or an exception of its own (the program cannot be started, the
  arguments are malformed).
\<close>

datatype proc_outcome = Completed int string string | Raised lib_error

text \<open>
  The library calls whose result depends on the machine are parameters: the record below
  holds one function for each such call of the source, over a type \<open>'w\<close> of states of the
  world outside the program (file system, git repository). A call that can change the
  world returns the new one. \<open>Path.resolve\<close> is held by two fields: \<open>resolve_raises\<close>
  is the exception it raises on a path, if any (\<open>ValueError\<close> for an embedded NUL
  character, \<open>RuntimeError\<close> for a loop of symbolic links), and \<open>resolve\<close> is the path it
  returns otherwise. \<open>load_config\<close> resolves a path taken from the config file and
  consults both; config discovery resolves the working directory and the root that git
  reports, and is modelled with \<open>resolve\<close> alone. \<open>Path.exists\<close> is taken to answer without
  an exception; the other calls return their exception as a value.
\<close>

record 'w os =
  cwd :: path
  home :: path
  resolve :: "path \<Rightarrow> path"
  resolve_raises :: "path \<Rightarrow> lib_error option"
  expanduser :: "path \<Rightarrow> lib_error + path"
  path_exists :: "'w \<Rightarrow> path \<Rightarrow> bool"
  read_text :: "'w \<Rightarrow> path \<Rightarrow> lib_error + string"
  toml_loads :: "string \<Rightarrow> lib_error + (string \<times> toml) list"
  shlex_split :: "toml \<Rightarrow> lib_error + string list"
  mkdir_parents :: "path \<Rightarrow> 'w \<Rightarrow> lib_error option \<times> 'w"
  copy2 :: "path \<Rightarrow> path \<Rightarrow> 'w \<Rightarrow> lib_error option \<times> 'w"
  subprocess_run :: "proc_args \<Rightarrow> path \<Rightarrow> bool \<Rightarrow> 'w \<Rightarrow> proc_outcome \<times> 'w"

text \<open>
  The state that the program threads through its calls: the world, the records passed to
  the \<open>logging\<close> module (level, format string, arguments) and the trace of the calls that
  reach the operating system.
\<close>

datatype level = DEBUG | INFO | WARNING | ERROR

datatype log_arg = LStr string | LInt int | LVal toml

type_synonym log_record = "level \<times> string \<times> log_arg list"

datatype os_call = Subprocess proc_args path bool | Mkdir path | Copy2 path path

record 'w state =
  world :: 'w
  log :: "log_record list"
  trace :: "os_call list"

definition emit :: "level \<Rightarrow> string \<Rightarrow> log_arg list \<Rightarrow> 'w state \<Rightarrow> 'w state" where
  "emit l fmt args st = st\<lparr>log := log st @ [(l, fmt, args)]\<rparr>"

text \<open>\<open>subprocess.run(args, cwd=d, shell=sh, ...)\<close>.\<close>

definition run_process ::
  "'w os \<Rightarrow> proc_args \<Rightarrow> path \<Rightarrow> bool \<Rightarrow> 'w state \<Rightarrow> proc_outcome \<times> 'w state" where
  "run_process os args d sh st =
     (let (out, w') = subprocess_run os args d sh (world st)
      in (out, st\<lparr>world := w', trace := trace st @ [Subprocess args d sh]\<rparr>))"

section \<open>Git root and config discovery (ops.py, config.py)\<close>

definition rev_parse_args :: proc_args where
  "rev_parse_args = Argv [''git'', ''rev-parse'', ''--show-toplevel'']"

text \<open>
  \<open>get_git_root(path)\<close>: \<open>check=True\<close> turns a non-zero return code into
  \<open>CalledProcessError\<close>, which is re-raised as \<open>VaihdeError\<close>; an exception of
  \<open>subprocess.run\<close> itself is not caught.
\<close>

definition get_git_root ::
  "'w os \<Rightarrow> path option \<Rightarrow> 'w state \<Rightarrow> (exc + path) \<times> 'w state" where
  "get_git_root os path_arg st =
     (let p = (case path_arg of None \<Rightarrow> cwd os | Some q \<Rightarrow> q);
          (out, st') = run_process os rev_parse_args p False st
      in case out of
           Raised e \<Rightarrow> (Inl (Lib e), st')
         | Completed rc so se \<Rightarrow>
             if rc \<noteq> 0 then (Inl (VaihdeError (''Not a git repository: '' @ p)), st')
             else (Inr (Path (strip so)), st'))"

definition get_global_config_path :: "'w os \<Rightarrow> path \<Rightarrow> path" where
  "get_global_config_path os git_root =
     joinpath (joinpath (joinpath (home os) ''.config'') ''vaihde'')
       (mangle_path (resolve os) git_root)"

definition get_local_config_path :: "path \<Rightarrow> path" where
  "get_local_config_path git_root = joinpath git_root ''vaihde.toml''"

text \<open>
  \<open>find_config(start_dir)\<close>: only \<open>VaihdeError\<close> from \<open>get_git_root\<close> is caught; the
  global path is tested first.
\<close>

definition find_config ::
  "'w os \<Rightarrow> path option \<Rightarrow> 'w state \<Rightarrow> (exc + path option) \<times> 'w state" where
  "find_config os start_dir st =
     (let start = resolve os (case start_dir of None \<Rightarrow> cwd os | Some d \<Rightarrow> d);
          (r, st1) = get_git_root os (Some start) st
      in case r of
           Inl (VaihdeError m) \<Rightarrow> (Inr None, st1)
         | Inl (Lib e) \<Rightarrow> (Inl (Lib e), st1)
         | Inr git_root \<Rightarrow>
             (let global_config = get_global_config_path os git_root
              in if path_exists os (world st1) global_config then (Inr (Some global_config), st1)
                 else (let local_config = get_local_config_path git_root
                       in if path_exists os (world st1) local_config
                          then (Inr (Some local_config), st1)
                          else (Inr None, st1))))"

section \<open>Worktree creation, file copy and post-commands (ops.py)\<close>

definition do_mkdir :: "'w os \<Rightarrow> path \<Rightarrow> 'w state \<Rightarrow> lib_error option \<times> 'w state" where
  "do_mkdir os p st =
     (let (r, w') = mkdir_parents os p (world st)
      in (r, st\<lparr>world := w', trace := trace st @ [Mkdir p]\<rparr>))"

definition do_copy2 :: "'w os \<Rightarrow> path \<Rightarrow> path \<Rightarrow> 'w state \<Rightarrow> lib_error option \<times> 'w state" where
  "do_copy2 os src dst st =
     (let (r, w') = copy2 os src dst (world st)
      in (r, st\<lparr>world := w', trace := trace st @ [Copy2 src dst]\<rparr>))"

definition show_ref_args :: "string \<Rightarrow> proc_args" where
  "show_ref_args branch =
     Argv [''git'', ''show-ref'', ''--verify'', ''--quiet'', ''refs/heads/'' @ branch]"

text \<open>\<open>_branch_exists(repo_root, branch)\<close>: the return code alone decides.\<close>

definition branch_exists ::
  "'w os \<Rightarrow> path \<Rightarrow> string \<Rightarrow> 'w state \<Rightarrow> (exc + bool) \<times> 'w state" where
  "branch_exists os repo_root branch st =
     (let (out, st') = run_process os (show_ref_args branch) repo_root False st
      in case out of
           Raised e \<Rightarrow> (Inl (Lib e), st')
         | Completed rc so se \<Rightarrow> (Inr (rc = 0), st'))"

definition worktree_add_args :: "string \<Rightarrow> path \<Rightarrow> proc_args" where
  "worktree_add_args name worktree_path =
     Argv [''git'', ''worktree'', ''add'', ''-b'', name, worktree_path]"

text \<open>\<open>create_worktree(repo_root, target, name)\<close>.\<close>

definition create_worktree ::
  "'w os \<Rightarrow> path \<Rightarrow> path \<Rightarrow> string \<Rightarrow> 'w state \<Rightarrow> (exc + path) \<times> 'w state" where
  "create_worktree os repo_root target name st =
     (let worktree_path = joinpath target name
      in if path_exists os (world st) worktree_path
         then (Inl (VaihdeError (''Worktree directory already exists: '' @ worktree_path)), st)
         else (let (b, st1) = branch_exists os repo_root name st
               in case b of
                    Inl e \<Rightarrow> (Inl e, st1)
                  | Inr True \<Rightarrow> (Inl (VaihdeError (''Branch already exists: '' @ name)), st1)
                  | Inr False \<Rightarrow>
                      (let (m, st2) = do_mkdir os target st1
                       in case m of
                            Some e \<Rightarrow> (Inl (Lib e), st2)
                          | None \<Rightarrow>
                              (let (out, st3) =
                                     run_process os (worktree_add_args name worktree_path)
                                       repo_root False st2
                               in case out of
                                    Raised e \<Rightarrow> (Inl (Lib e), st3)
                                  | Completed rc so se \<Rightarrow>
                                      if rc \<noteq> 0
                                      then (Inl (VaihdeError
                                              (''Failed to create worktree: '' @ strip se)), st3)
                                      else (Inr worktree_path, st3)))))"

text \<open>
  Python's \<open>for x in v\<close>, truth value, \<open>key in v\<close>, \<open>v[key]\<close> and \<open>v.get(key, default)\<close>
  on a TOML value. The dataclasses of config.py do not check their field types, so these
  operations meet whatever the config file holds.
\<close>

fun py_iter :: "toml \<Rightarrow> lib_error + toml list" where
  "py_iter (TArr xs) = Inr xs"
| "py_iter (TStr s) = Inr (map (\<lambda>c. TStr [c]) s)"
| "py_iter (TTable kvs) = Inr (map (\<lambda>kv. TStr (fst kv)) kvs)"
| "py_iter v = Inl (OtherError ''TypeError'')"

fun py_truthy :: "toml \<Rightarrow> bool" where
  "py_truthy (TStr s) = (s \<noteq> [])"
| "py_truthy (TInt i) = (i \<noteq> 0)"
| "py_truthy (TFloat r) = (r \<noteq> 0)"
| "py_truthy (TBool b) = b"
| "py_truthy (TDateTime d) = True"
| "py_truthy (TArr xs) = (xs \<noteq> [])"
| "py_truthy (TTable kvs) = (kvs \<noteq> [])"

fun starts_with :: "string \<Rightarrow> string \<Rightarrow> bool" where
  "starts_with [] s = True"
| "starts_with (k # ks) [] = False"
| "starts_with (k # ks) (c # cs) = (k = c \<and> starts_with ks cs)"

fun contains_str :: "string \<Rightarrow> string \<Rightarrow> bool" where
  "contains_str key [] = (key = [])"
| "contains_str key (c # cs) = (starts_with key (c # cs) \<or> contains_str key cs)"

fun py_contains :: "toml \<Rightarrow> string \<Rightarrow> lib_error + bool" where
  "py_contains (TTable kvs) key = Inr (map_of kvs key \<noteq> None)"
| "py_contains (TStr s) key = Inr (contains_str key s)"
| "py_contains (TArr xs) key = Inr (TStr key \<in> set xs)"
| "py_contains v key = Inl (OtherError ''TypeError'')"

fun py_getitem :: "toml \<Rightarrow> string \<Rightarrow> lib_error + toml" where
  "py_getitem (TTable kvs) key =
     (case map_of kvs key of None \<Rightarrow> Inl (OtherError ''KeyError'') | Some v \<Rightarrow> Inr v)"
| "py_getitem v key = Inl (OtherError ''TypeError'')"

fun py_get :: "toml \<Rightarrow> string \<Rightarrow> toml \<Rightarrow> lib_error + toml" where
  "py_get (TTable kvs) key dflt = Inr (case map_of kvs key of None \<Rightarrow> dflt | Some v \<Rightarrow> v)"
| "py_get v key dflt = Inl (OtherError ''AttributeError'')"

text \<open>
  The loop of \<open>copy_files(src_dir, dst_dir, files)\<close>. \<open>src_dir / filename\<close> stands before
  the \<open>try\<close> and raises \<open>TypeError\<close> for a \<open>filename\<close> that is not a string; inside the
  \<open>try\<close> only \<open>OSError\<close> is caught.
\<close>

fun copy_loop ::
  "'w os \<Rightarrow> path \<Rightarrow> path \<Rightarrow> toml list \<Rightarrow> 'w state \<Rightarrow> (exc + unit) \<times> 'w state" where
  "copy_loop os src_dir dst_dir [] st = (Inr (), st)"
| "copy_loop os src_dir dst_dir (f # fs) st =
     (case f of
        TStr filename \<Rightarrow>
          (let src = joinpath src_dir filename;
               dst = joinpath dst_dir filename
           in if \<not> path_exists os (world st) src
              then copy_loop os src_dir dst_dir fs
                     (emit INFO ''Skipping %s (not found in source)'' [LStr filename] st)
              else (case do_mkdir os (parent dst) st of
                      (Some (OSError m), st1) \<Rightarrow>
                        copy_loop os src_dir dst_dir fs
                          (emit WARNING ''Failed to copy %s: %s'' [LStr filename, LStr m] st1)
                    | (Some e, st1) \<Rightarrow> (Inl (Lib e), st1)
                    | (None, st1) \<Rightarrow>
                        (case do_copy2 os src dst st1 of
                           (Some (OSError m), st2) \<Rightarrow>
                             copy_loop os src_dir dst_dir fs
                               (emit WARNING ''Failed to copy %s: %s''
                                  [LStr filename, LStr m] st2)
                         | (Some e, st2) \<Rightarrow> (Inl (Lib e), st2)
                         | (None, st2) \<Rightarrow>
                             copy_loop os src_dir dst_dir fs
                               (emit DEBUG ''Copied %s'' [LStr filename] st2))))
      | _ \<Rightarrow> (Inl (Lib (OtherError ''TypeError'')), st))"

definition copy_files ::
  "'w os \<Rightarrow> path \<Rightarrow> path \<Rightarrow> toml \<Rightarrow> 'w state \<Rightarrow> (exc + unit) \<times> 'w state" where
  "copy_files os src_dir dst_dir files st =
     (case py_iter files of
        Inl e \<Rightarrow> (Inl (Lib e), st)
      | Inr fs \<Rightarrow> copy_loop os src_dir dst_dir fs st)"

text \<open>The dataclass \<open>PostCommand\<close>; its fields hold what the config file holds.\<close>

record post_command =
  run :: toml
  shell :: toml

text \<open>\<open>args = cmd.run if cmd.shell else shlex.split(cmd.run)\<close>.\<close>

definition command_args :: "'w os \<Rightarrow> post_command \<Rightarrow> lib_error + proc_args" where
  "command_args os cmd =
     (if py_truthy (shell cmd) then Inr (RawArgs (run cmd))
      else map_sum id Argv (shlex_split os (run cmd)))"

text \<open>
  The loop of \<open>run_commands(cwd, commands)\<close>. No exception is caught here: one raised by
  \<open>shlex.split\<close> or by \<open>subprocess.run\<close> ends the loop.
\<close>

fun run_loop ::
  "'w os \<Rightarrow> path \<Rightarrow> post_command list \<Rightarrow> 'w state \<Rightarrow> (exc + unit) \<times> 'w state" where
  "run_loop os d [] st = (Inr (), st)"
| "run_loop os d (cmd # cmds) st =
     (let st0 = emit DEBUG ''Running: %s'' [LVal (run cmd)] st
      in case command_args os cmd of
           Inl e \<Rightarrow> (Inl (Lib e), st0)
         | Inr args \<Rightarrow>
             (case run_process os args d (py_truthy (shell cmd)) st0 of
                (Raised e, st1) \<Rightarrow> (Inl (Lib e), st1)
              | (Completed rc so se, st1) \<Rightarrow>
                  if rc \<noteq> 0
                  then (let st2 = emit WARNING ''Command failed with exit code %d'' [LInt rc] st1;
                            st3 = (if se \<noteq> [] then emit WARNING ''  %s'' [LStr (strip se)] st2
                                   else st2)
                        in run_loop os d cmds st3)
                  else run_loop os d cmds st1))"

definition run_commands ::
  "'w os \<Rightarrow> path \<Rightarrow> post_command list \<Rightarrow> 'w state \<Rightarrow> (exc + unit) \<times> 'w state" where
  "run_commands os d commands st = run_loop os d commands st"

text \<open>
  The call of \<open>subprocess.run\<close> that one post-command stands for in the directory \<open>d\<close>
  (none when \<open>shlex.split\<close> rejects it).
\<close>

definition command_call :: "'w os \<Rightarrow> path \<Rightarrow> post_command \<Rightarrow> os_call option" where
  "command_call os d cmd =
     (case command_args os cmd of
        Inl e \<Rightarrow> None
      | Inr args \<Rightarrow> Some (Subprocess args d (py_truthy (shell cmd))))"

section \<open>Loading the config (config.py)\<close>

text \<open>The dataclass \<open>VaihdeConfig\<close>.\<close>

record vaihde_config =
  worktree_root :: path
  config_copy_files :: toml
  post_commands :: "post_command list"

text \<open>
  The loop of \<open>load_config\<close> over the entries of \<open>post_commands\<close>: the first entry
  without \<open>run\<close> raises \<open>VaihdeError\<close>.
\<close>

fun parse_post_commands :: "path \<Rightarrow> toml list \<Rightarrow> exc + post_command list" where
  "parse_post_commands p [] = Inr []"
| "parse_post_commands p (cmd_data # rest) =
     (case py_contains cmd_data ''run'' of
        Inl e \<Rightarrow> Inl (Lib e)
      | Inr False \<Rightarrow> Inl (VaihdeError (''Post command missing 'run' field in '' @ p))
      | Inr True \<Rightarrow>
          (case py_getitem cmd_data ''run'' of
             Inl e \<Rightarrow> Inl (Lib e)
           | Inr r \<Rightarrow>
               (case py_get cmd_data ''shell'' (TBool False) of
                  Inl e \<Rightarrow> Inl (Lib e)
                | Inr s \<Rightarrow>
                    (case parse_post_commands p rest of
                       Inl e \<Rightarrow> Inl e
                     | Inr cmds \<Rightarrow> Inr (\<lparr>run = r, shell = s\<rparr> # cmds)))))"

text \<open>
  \<open>load_config\<close> after \<open>tomllib.loads\<close>, on the parsed \<open>data\<close>. \<open>Path(v)\<close> raises
  \<open>TypeError\<close> when \<open>v\<close> is not a string, \<open>Path.expanduser\<close> raises when the home
  directory of a \<open>~user\<close> prefix is unknown, and \<open>Path.resolve\<close> raises on a path that it
  cannot resolve.
\<close>

definition load_data :: "'w os \<Rightarrow> path \<Rightarrow> (string \<times> toml) list \<Rightarrow> exc + vaihde_config" where
  "load_data os p data =
     (case map_of data ''worktree_root'' of
        None \<Rightarrow> Inl (VaihdeError (''Missing required 'worktree_root' in '' @ p))
      | Some (TStr s) \<Rightarrow>
          (case expanduser os (Path s) of
             Inl e \<Rightarrow> Inl (Lib e)
           | Inr expanded \<Rightarrow>
               (case resolve_raises os expanded of
                  Some e \<Rightarrow> Inl (Lib e)
                | None \<Rightarrow>
                    (let root = resolve os expanded
                     in case (case map_of data ''copy'' of
                                None \<Rightarrow> py_get (TTable []) ''files'' (TArr [])
                              | Some c \<Rightarrow> py_get c ''files'' (TArr [])) of
                          Inl e \<Rightarrow> Inl (Lib e)
                        | Inr files \<Rightarrow>
                            (case py_iter (case map_of data ''post_commands'' of
                                             None \<Rightarrow> TArr [] | Some v \<Rightarrow> v) of
                               Inl e \<Rightarrow> Inl (Lib e)
                             | Inr entries \<Rightarrow>
                                 (case parse_post_commands p entries of
                                    Inl e \<Rightarrow> Inl e
                                  | Inr cmds \<Rightarrow>
                                      Inr \<lparr>worktree_root = root, config_copy_files = files,
                                           post_commands = cmds\<rparr>)))))
      | Some v \<Rightarrow> Inl (Lib (OtherError ''TypeError'')))"

text \<open>\<open>load_config(path)\<close>.\<close>

definition load_config :: "'w os \<Rightarrow> path \<Rightarrow> 'w \<Rightarrow> exc + vaihde_config" where
  "load_config os p w =
     (case read_text os w p of
        Inl e \<Rightarrow> Inl (Lib e)
      | Inr text \<Rightarrow>
          (case toml_loads os text of
             Inl e \<Rightarrow> Inl (Lib e)
           | Inr data \<Rightarrow> load_data os p data))"

text \<open>
  The shape of parsed data that \<open>load_config\<close> relies on without testing it:
  \<open>worktree_root\<close>, if present, is a string; \<open>copy\<close>, if present, is a table;
  \<open>post_commands\<close>, if present, is an array of tables.
\<close>

fun is_table :: "toml \<Rightarrow> bool" where
  "is_table (TTable kvs) = True"
| "is_table v = False"

fun table_items :: "toml \<Rightarrow> (string \<times> toml) list" where
  "table_items (TTable kvs) = kvs"
| "table_items v = []"

definition well_shaped :: "(string \<times> toml) list \<Rightarrow> bool" where
  "well_shaped data =
     ((case map_of data ''worktree_root'' of
         None \<Rightarrow> True | Some (TStr s) \<Rightarrow> True | Some v \<Rightarrow> False) \<and>
      (case map_of data ''copy'' of None \<Rightarrow> True | Some c \<Rightarrow> is_table c) \<and>
      (case map_of data ''post_commands'' of
         None \<Rightarrow> True | Some (TArr xs) \<Rightarrow> list_all is_table xs | Some v \<Rightarrow> False))"

text \<open>The entries of \<open>post_commands\<close> in such data.\<close>

definition entries_of :: "(string \<times> toml) list \<Rightarrow> toml list" where
  "entries_of data =
     (case map_of data ''post_commands'' of Some (TArr xs) \<Rightarrow> xs | _ \<Rightarrow> [])"

text \<open>
  The \<open>PostCommand\<close> that \<open>load_config\<close> builds from a table with a \<open>run\<close> key:
  \<open>shell\<close> defaults to \<open>False\<close>.
\<close>

definition entry_command :: "toml \<Rightarrow> post_command" where
  "entry_command e =
     \<lparr>run = the (map_of (table_items e) ''run''),
      shell = (case map_of (table_items e) ''shell'' of None \<Rightarrow> TBool False | Some v \<Rightarrow> v)\<rparr>"

section \<open>The \<open>new\<close> command (cli.py)\<close>

text \<open>\<open>cmd_new(name)\<close>.\<close>

definition cmd_new :: "'w os \<Rightarrow> string \<Rightarrow> 'w state \<Rightarrow> (exc + int) \<times> 'w state" where
  "cmd_new os name st =
     (case get_git_root os None st of
        (Inl e, st0) \<Rightarrow> (Inl e, st0)
      | (Inr git_root, st0) \<Rightarrow>
          (case find_config os None (emit DEBUG ''Git root: %s'' [LStr git_root] st0) of
             (Inl e, st2) \<Rightarrow> (Inl e, st2)
           | (Inr None, st2) \<Rightarrow>
               (let global_path = get_global_config_path os git_root;
                    st3 = emit ERROR ''No vaihde.toml config found'' [] st2;
                    st4 = emit ERROR ''Create vaihde.toml in your git repo, or: %s''
                            [LStr global_path] st3
                in (Inr 1, st4))
           | (Inr (Some config_path), st2) \<Rightarrow>
               (let st3 = emit DEBUG ''Using config: %s'' [LStr config_path] st2
                in case load_config os config_path (world st3) of
                     Inl e \<Rightarrow> (Inl e, st3)
                   | Inr config \<Rightarrow>
                       (case create_worktree os git_root (worktree_root config) name
                               (emit DEBUG ''Creating worktree '%s' in %s''
                                  [LStr name, LStr (worktree_root config)] st3) of
                          (Inl e, st5) \<Rightarrow> (Inl e, st5)
                        | (Inr worktree_path, st5) \<Rightarrow>
                            (let st6 = emit INFO ''Created worktree: %s'' [LStr worktree_path] st5
                             in case (if py_truthy (config_copy_files config)
                                      then copy_files os git_root worktree_path
                                             (config_copy_files config)
                                             (emit DEBUG ''Copying files...'' [] st6)
                                      else (Inr (), st6)) of
                                  (Inl e, st7) \<Rightarrow> (Inl e, st7)
                                | (Inr u, st7) \<Rightarrow>
                                    (case (if post_commands config \<noteq> []
                                           then run_commands os worktree_path
                                                  (post_commands config)
                                                  (emit DEBUG ''Running post-commands...'' [] st7)
                                           else (Inr (), st7)) of
                                       (Inl e, st8) \<Rightarrow> (Inl e, st8)
                                     | (Inr u', st8) \<Rightarrow> (Inr 0, st8)))))))"

text \<open>
  \<open>run(["new", name])\<close>: the dispatch to \<open>cmd_new\<close> with the two handlers of \<open>run\<close>.
  Any other exception leaves \<open>run\<close>.
\<close>

definition run_new :: "'w os \<Rightarrow> string \<Rightarrow> 'w state \<Rightarrow> (exc + int) \<times> 'w state" where
  "run_new os name st =
     (case cmd_new os name st of
        (Inl (VaihdeError m), st') \<Rightarrow> (Inr 1, emit ERROR ''Error: %s'' [LStr m] st')
      | (Inl (Lib KeyboardInterrupt), st') \<Rightarrow>
          (Inr 130, emit INFO (CHR 0x0A # ''Interrupted'') [] st')
      | (Inl e, st') \<Rightarrow> (Inl e, st')
      | (Inr code, st') \<Rightarrow> (Inr code, st'))"

section \<open>A simulated machine\<close>

text \<open>
  A small machine on which the theorems below are instantiated. Its world is the list of
  the paths that exist. Every directory below \<open>/repo\<close> is inside the repository
  \<open>/repo\<close>, whose only branch is \<open>main\<close>; git refuses the branch name \<open>HEAD\<close>; the
  programs \<open>true\<close> and \<open>false\<close> exist, and the shell runs any line (\<open>exit 3\<close> fails); the
  file \<open>/repo/locked\<close> cannot be read. There are no symbolic links, and a path with a NUL
  character cannot be resolved.
\<close>

definition sim_subprocess ::
  "proc_args \<Rightarrow> path \<Rightarrow> bool \<Rightarrow> path list \<Rightarrow> proc_outcome \<times> path list" where
  "sim_subprocess args d sh w =
     (case args of
        Argv xs \<Rightarrow>
          if take 2 xs = [''git'', ''rev-parse'']
          then (if starts_with ''/repo'' d then (Completed 0 (''/repo'' @ [CHR 0x0A]) [], w)
                else (Completed 128 [] ''fatal: not a git repository'', w))
          else if take 2 xs = [''git'', ''show-ref'']
          then (Completed (if last xs = ''refs/heads/main'' then 0 else 1) [] [], w)
          else if take 3 xs = [''git'', ''worktree'', ''add'']
          then (if xs ! 4 = ''HEAD''
                then (Completed 128 [] ''fatal: not a valid branch name'', w)
                else (Completed 0 [] [], last xs # w))
          else if xs = [''true''] then (Completed 0 [] [], w)
          else if xs = [''false''] then (Completed 1 [] [], w)
          else (Raised (OSError ''No such file or directory''), w)
      | RawArgs v \<Rightarrow>
          (case v of
             TStr s \<Rightarrow>
               (if s = ''exit 3'' then (Completed 3 [] ''exit 3'', w) else (Completed 0 [] [], w))
           | _ \<Rightarrow> (Raised (OtherError ''TypeError''), w)))"

definition sim_os :: "path list os" where
  "sim_os =
     \<lparr>cwd = ''/repo'',
      home = ''/home/dev'',
      resolve = Path,
      resolve_raises = (\<lambda>p. if CHR 0x00 \<in> set p then Some (OtherError ''ValueError'')
                            else None),
      expanduser = Inr,
      path_exists = (\<lambda>w p. p \<in> set w),
      read_text = (\<lambda>w p. if p \<in> set w then Inr ''worktree_root = '/wt' ''
                           else Inl (OSError ''No such file or directory'')),
      toml_loads = (\<lambda>s. Inr [(''worktree_root'', TStr ''/wt'')]),
      shlex_split = (\<lambda>v. case v of TStr s \<Rightarrow> Inr [s]
                               | _ \<Rightarrow> Inl (OtherError ''AttributeError'')),
      mkdir_parents = (\<lambda>p w. (None, p # w)),
      copy2 = (\<lambda>src dst w. if src = ''/repo/locked''
                              then (Some (OSError ''Permission denied''), w)
                              else (None, dst # w)),
      subprocess_run = sim_subprocess\<rparr>"

text \<open>The same machine with config files that parse to \<open>data\<close>.\<close>

definition sim_os_toml :: "(string \<times> toml) list \<Rightarrow> path list os" where
  "sim_os_toml data = sim_os\<lparr>toml_loads := (\<lambda>s. Inr data)\<rparr>"

text \<open>The state before the program has logged or called anything.\<close>

definition sim_state :: "path list \<Rightarrow> path list state" where
  "sim_state w = \<lparr>world = w, log = [], trace = []\<rparr>"

text \<open>
  A config with three post-commands, of which the first two fail, as parsed data and as
  \<open>load_config\<close> returns it.
\<close>

definition sim_post_data :: "(string \<times> toml) list" where
  "sim_post_data =
     [(''worktree_root'', TStr ''/wt''),
      (''post_commands'',
         TArr [TTable [(''run'', TStr ''false'')],
               TTable [(''run'', TStr ''exit 3''), (''shell'', TBool True)],
               TTable [(''run'', TStr ''true'')]])]"

definition sim_post_config :: vaihde_config where
  "sim_post_config =
     \<lparr>worktree_root = ''/wt'', config_copy_files = TArr [],
      post_commands = [\<lparr>run = TStr ''false'', shell = TBool False\<rparr>,
                       \<lparr>run = TStr ''exit 3'', shell = TBool True\<rparr>,
                       \<lparr>run = TStr ''true'', shell = TBool False\<rparr>]\<rparr>"

text \<open>A config whose second post-command has no \<open>run\<close> key.\<close>

definition sim_bad_data :: "(string \<times> toml) list" where
  "sim_bad_data =
     [(''worktree_root'', TStr ''/wt''),
      (''post_commands'', TArr [TTable [(''run'', TStr ''true'')], TTable [(''shell'', TBool True)]])]"

section \<open>Properties of the config file names\<close>

lemma replace_sep_no_sep: "sep \<notin> set (replace_sep s)"
  by (induction s) (auto simp: sep_def)

lemma unmangle_other: "c \<noteq> CHR ''_'' \<Longrightarrow> unmangle (c # xs) = c # unmangle xs"
  by (cases xs) auto

lemma unmangle_replace_sep: "plain_underscores s \<Longrightarrow> unmangle (replace_sep s) = s"
proof (induction s rule: plain_underscores.induct)
  case 1
  then show ?case by simp
next
  case (2 c)
  then show ?case by (simp add: sep_def)
next
  case (3 c d ds)
  then have ih: "unmangle (replace_sep (d # ds)) = d # ds"
    and ok: "\<not> (c = CHR ''_'' \<and> (d = CHR ''_'' \<or> d = sep))"
    by simp_all
  show ?case
  proof (cases "c = sep")
    case True
    then show ?thesis using ih by simp
  next
    case False
    note nsep = this
    show ?thesis
    proof (cases "c = CHR ''_''")
      case True
      with ok have d: "d \<noteq> CHR ''_''" "d \<noteq> sep" by auto
      have "unmangle (replace_sep (c # d # ds)) = unmangle (c # d # replace_sep ds)"
        using nsep d by simp
      also have "\<dots> = c # unmangle (d # replace_sep ds)"
        using d by simp
      also have "d # replace_sep ds = replace_sep (d # ds)"
        using d by simp
      finally show ?thesis using ih by simp
    next
      case False
      then show ?thesis using nsep ih by (simp add: unmangle_other)
    qed
  qed
qed

lemma lstrip_sep_single_root: "single_root p \<Longrightarrow> p = sep # lstrip_sep p"
  by (induction p rule: single_root.induct) (auto simp: lstrip_sep_def)

text \<open>
  C9: for every input path, the file name that \<open>mangle_path\<close> produces contains no path
  separator and ends with the fixed suffix \<open>.toml\<close>.
\<close>

theorem mangle_path_filename:
  "CHR ''/'' \<notin> set (mangle_path rslv p) \<and>
   (\<exists>stem. mangle_path rslv p = stem @ ''.toml'')"
proof -
  have "sep \<notin> set (replace_sep (lstrip_sep (rslv p)))"
    by (rule replace_sep_no_sep)
  then show ?thesis
    by (simp add: mangle_path_def Let_def sep_def)
qed

text \<open>
  C1, as stated: two distinct absolute paths get distinct file names. It fails: the
  absolute paths \<open>/a/b\<close> and \<open>/a__b\<close>, which a file system without symbolic links
  resolves to themselves, get the same file name \<open>a__b.toml\<close>.
\<close>

theorem mangle_path_collision:
  "''/a/b'' \<noteq> ''/a__b'' \<and>
   mangle_path id ''/a/b'' = ''a__b.toml'' \<and>
   mangle_path id ''/a__b'' = ''a__b.toml''"
  by (simp add: mangle_path_def lstrip_sep_def sep_def)

text \<open>
  C1, amended: \<open>mangle_path\<close> is injective on the paths whose resolved form starts with
  exactly one separator and has no underscore directly followed by an underscore or a
  separator: two such paths with different resolved forms get different file names.
\<close>

theorem mangle_path_injective:
  assumes "single_root (rslv p)" and "single_root (rslv q)"
    and "plain_underscores (lstrip_sep (rslv p))"
    and "plain_underscores (lstrip_sep (rslv q))"
    and "rslv p \<noteq> rslv q"
  shows "mangle_path rslv p \<noteq> mangle_path rslv q"
proof
  assume "mangle_path rslv p = mangle_path rslv q"
  then have "replace_sep (lstrip_sep (rslv p)) = replace_sep (lstrip_sep (rslv q))"
    by (simp add: mangle_path_def Let_def)
  then have "unmangle (replace_sep (lstrip_sep (rslv p))) =
             unmangle (replace_sep (lstrip_sep (rslv q)))"
    by simp
  then have "lstrip_sep (rslv p) = lstrip_sep (rslv q)"
    using assms(3,4) by (simp add: unmangle_replace_sep)
  then have "rslv p = rslv q"
    using lstrip_sep_single_root [OF assms(1)] lstrip_sep_single_root [OF assms(2)]
    by simp
  with assms(5) show False by simp
qed

theorem mangle_path_injective_witness:
  "single_root ''/srv/my_repo'' \<and> single_root ''/srv/my/repo'' \<and>
   plain_underscores (lstrip_sep ''/srv/my_repo'') \<and>
   plain_underscores (lstrip_sep ''/srv/my/repo'') \<and>
   ''/srv/my_repo'' \<noteq> ''/srv/my/repo'' \<and>
   mangle_path (\<lambda>p. p) ''/srv/my_repo'' \<noteq> mangle_path (\<lambda>p. p) ''/srv/my/repo''"
proof -
  have a: "single_root ''/srv/my_repo''" and b: "single_root ''/srv/my/repo''"
    by (simp_all add: sep_def)
  have c: "plain_underscores (lstrip_sep ''/srv/my_repo'')"
    and d: "plain_underscores (lstrip_sep ''/srv/my/repo'')"
    by (simp_all add: lstrip_sep_def sep_def)
  have e: "''/srv/my_repo'' \<noteq> ''/srv/my/repo''" by simp
  show ?thesis
    using a b c d e
      mangle_path_injective [of "\<lambda>p. p" "''/srv/my_repo''" "''/srv/my/repo''"]
    by blast
qed

section \<open>Properties of config discovery\<close>

lemma world_emit: "world (emit l fmt args st) = world st"
  and trace_emit: "trace (emit l fmt args st) = trace st"
  and log_emit: "log (emit l fmt args st) = log st @ [(l, fmt, args)]"
  by (simp_all add: emit_def)

text \<open>
  C2: when the global and the local config file both exist for the repository root that
  git reports, \<open>find_config\<close> returns the global path.
\<close>

theorem find_config_global_first:
  assumes "get_git_root os (Some (resolve os (case start_dir of None \<Rightarrow> cwd os | Some d \<Rightarrow> d))) st
             = (Inr git_root, st1)"
    and "path_exists os (world st1) (get_global_config_path os git_root)"
    and "path_exists os (world st1) (get_local_config_path git_root)"
  shows "find_config os start_dir st = (Inr (Some (get_global_config_path os git_root)), st1)"
  using assms by (simp add: find_config_def Let_def)

lemma sim_rev_parse_repo:
  "get_git_root sim_os (Some ''/repo'') st =
     (Inr ''/repo'', st\<lparr>world := world st, trace := trace st @ [Subprocess rev_parse_args ''/repo'' False]\<rparr>)"
  by (simp add: get_git_root_def run_process_def sim_os_def sim_subprocess_def rev_parse_args_def
      Let_def Path_def path_root_def path_parts_def path_str_def strip_def is_space_def sep_def)

theorem find_config_global_first_witness:
  "find_config sim_os None
     (sim_state [''/repo/vaihde.toml'', ''/home/dev/.config/vaihde/repo.toml''])
   = (Inr (Some ''/home/dev/.config/vaihde/repo.toml''),
      \<lparr>world = [''/repo/vaihde.toml'', ''/home/dev/.config/vaihde/repo.toml''], log = [],
       trace = [Subprocess rev_parse_args ''/repo'' False]\<rparr>)"
proof -
  let ?st = "sim_state [''/repo/vaihde.toml'', ''/home/dev/.config/vaihde/repo.toml'']"
  let ?st1 = "\<lparr>world = [''/repo/vaihde.toml'', ''/home/dev/.config/vaihde/repo.toml''], log = [],
       trace = [Subprocess rev_parse_args ''/repo'' False]\<rparr>"
  have r: "resolve sim_os (case None of None \<Rightarrow> cwd sim_os | Some d \<Rightarrow> d) = ''/repo''"
    by (simp add: sim_os_def Path_def path_root_def path_parts_def path_str_def sep_def)
  have g: "get_git_root sim_os (Some (resolve sim_os (case None of None \<Rightarrow> cwd sim_os | Some d \<Rightarrow> d))) ?st
             = (Inr ''/repo'', ?st1)"
    unfolding r by (simp add: sim_rev_parse_repo sim_state_def)
  have gp: "get_global_config_path sim_os ''/repo'' = ''/home/dev/.config/vaihde/repo.toml''"
    by (simp add: get_global_config_path_def sim_os_def mangle_path_def lstrip_sep_def joinpath_def posix_join_def Path_def path_root_def path_parts_def path_str_def sep_def)
  have lp: "get_local_config_path ''/repo'' = ''/repo/vaihde.toml''"
    by (simp add: get_local_config_path_def joinpath_def posix_join_def Path_def path_root_def path_parts_def path_str_def sep_def)
  have e1: "path_exists sim_os (world ?st1) (get_global_config_path sim_os ''/repo'')"
    unfolding gp by (simp add: sim_os_def)
  have e2: "path_exists sim_os (world ?st1) (get_local_config_path ''/repo'')"
    unfolding lp by (simp add: sim_os_def)
  show ?thesis
    using find_config_global_first [OF g e1 e2] gp by simp
qed

text \<open>
  C8: when the start directory is not inside a git repository (\<open>git rev-parse\<close> exits
  with a non-zero code there), \<open>get_git_root\<close> raises \<open>VaihdeError\<close> and \<open>find_config\<close>
  absorbs it: it returns \<open>None\<close>.
\<close>

theorem find_config_not_a_repository:
  assumes "subprocess_run os rev_parse_args
             (resolve os (case start_dir of None \<Rightarrow> cwd os | Some d \<Rightarrow> d)) False (world st)
           = (Completed rc out err, w')"
    and "rc \<noteq> 0"
  shows "(\<exists>m. fst (get_git_root os
                    (Some (resolve os (case start_dir of None \<Rightarrow> cwd os | Some d \<Rightarrow> d))) st)
               = Inl (VaihdeError m)) \<and>
         fst (find_config os start_dir st) = Inr None"
  using assms by (simp add: find_config_def get_git_root_def run_process_def Let_def)

theorem find_config_not_a_repository_witness:
  "(\<exists>m. fst (get_git_root sim_os (Some ''/tmp'') (sim_state [''/tmp/vaihde.toml''])) = Inl (VaihdeError m)) \<and>
   fst (find_config sim_os (Some ''/tmp'') (sim_state [''/tmp/vaihde.toml''])) = Inr None"
proof -
  have r: "resolve sim_os (case Some ''/tmp'' of None \<Rightarrow> cwd sim_os | Some d \<Rightarrow> d) = ''/tmp''"
    by (simp add: sim_os_def Path_def path_root_def path_parts_def path_str_def sep_def)
  have s: "subprocess_run sim_os rev_parse_args
             (resolve sim_os (case Some ''/tmp'' of None \<Rightarrow> cwd sim_os | Some d \<Rightarrow> d)) False
             (world (sim_state [''/tmp/vaihde.toml'']))
           = (Completed 128 [] ''fatal: not a git repository'', [''/tmp/vaihde.toml''])"
    unfolding r by (simp add: sim_os_def sim_subprocess_def rev_parse_args_def sim_state_def)
  have n: "(128::int) \<noteq> 0" by simp
  show ?thesis
    using find_config_not_a_repository [OF s n] r by simp
qed

section \<open>Properties of worktree creation and of the \<open>new\<close> command\<close>

text \<open>
  C3: \<open>create_worktree\<close> fails with "Worktree directory already exists" whenever
  \<open>target / name\<close> exists, whether or not the branch exists and before any git command
  is run (the state is returned as it was); and it fails with "Branch already exists"
  whenever the branch exists and \<open>target / name\<close> does not.
\<close>

theorem create_worktree_rejects_taken:
  "(path_exists os (world st) (joinpath target name) \<longrightarrow>
      create_worktree os repo_root target name st
        = (Inl (VaihdeError (''Worktree directory already exists: '' @ joinpath target name)), st))
   \<and>
   (\<not> path_exists os (world st) (joinpath target name) \<and>
    branch_exists os repo_root name st = (Inr True, st1) \<longrightarrow>
      create_worktree os repo_root target name st
        = (Inl (VaihdeError (''Branch already exists: '' @ name)), st1))"
  by (simp add: create_worktree_def Let_def)

lemma sim_joinpath_wt:
  "joinpath ''/wt'' ''existing'' = ''/wt/existing''"
  "joinpath ''/wt'' ''main'' = ''/wt/main''"
  "joinpath ''/wt'' ''HEAD'' = ''/wt/HEAD''"
  by (simp_all add: joinpath_def posix_join_def Path_def path_root_def path_parts_def path_str_def sep_def)

theorem create_worktree_rejects_taken_witness:
  "create_worktree sim_os ''/repo'' ''/wt'' ''existing'' (sim_state [''/wt/existing''])
     = (Inl (VaihdeError ''Worktree directory already exists: /wt/existing''),
        sim_state [''/wt/existing''])
   \<and>
   create_worktree sim_os ''/repo'' ''/wt'' ''main'' (sim_state [])
     = (Inl (VaihdeError ''Branch already exists: main''),
        \<lparr>world = [], log = [], trace = [Subprocess (show_ref_args ''main'') ''/repo'' False]\<rparr>)"
proof -
  let ?st1 = "\<lparr>world = [], log = [], trace = [Subprocess (show_ref_args ''main'') ''/repo'' False]\<rparr>"
  have a: "path_exists sim_os (world (sim_state [''/wt/existing''])) (joinpath ''/wt'' ''existing'')"
    by (simp add: sim_joinpath_wt sim_os_def sim_state_def)
  have b: "\<not> path_exists sim_os (world (sim_state [])) (joinpath ''/wt'' ''main'')"
    by (simp add: sim_os_def sim_state_def)
  have c: "branch_exists sim_os ''/repo'' ''main'' (sim_state []) = (Inr True, ?st1)"
    by (simp add: branch_exists_def run_process_def sim_os_def sim_subprocess_def
        show_ref_args_def sim_state_def)
  from create_worktree_rejects_taken [of sim_os "sim_state [''/wt/existing'']" "''/wt''" "''existing''" "''/repo''"] a
  have 1: "create_worktree sim_os ''/repo'' ''/wt'' ''existing'' (sim_state [''/wt/existing''])
     = (Inl (VaihdeError ''Worktree directory already exists: /wt/existing''),
        sim_state [''/wt/existing''])"
    by (simp add: sim_joinpath_wt)
  from create_worktree_rejects_taken [of sim_os "sim_state []" "''/wt''" "''main''" "''/repo''" ?st1] b c
  have 2: "create_worktree sim_os ''/repo'' ''/wt'' ''main'' (sim_state [])
     = (Inl (VaihdeError ''Branch already exists: main''), ?st1)"
    by simp
  from 1 2 show ?thesis by simp
qed

lemma do_mkdir_trace:
  "do_mkdir os p st = (r, st') \<Longrightarrow>
     trace st' = trace st @ [Mkdir p] \<and> log st' = log st \<and>
     (r, world st') = mkdir_parents os p (world st)"
  by (auto simp: do_mkdir_def Let_def split: prod.splits)

lemma run_process_trace:
  "run_process os args d sh st = (out, st') \<Longrightarrow>
     trace st' = trace st @ [Subprocess args d sh] \<and> log st' = log st \<and>
     (out, world st') = subprocess_run os args d sh (world st)"
  by (auto simp: run_process_def Let_def split: prod.splits)

lemma branch_exists_trace:
  "branch_exists os repo_root name st = (r, st') \<Longrightarrow>
     trace st' = trace st @ [Subprocess (show_ref_args name) repo_root False] \<and> log st' = log st"
  by (auto simp: branch_exists_def Let_def split: prod.splits proc_outcome.splits dest: run_process_trace)

lemma branch_exists_no_vaihde:
  "branch_exists os repo_root name st \<noteq> (Inl (VaihdeError m), st')"
  by (auto simp: branch_exists_def Let_def split: prod.splits proc_outcome.splits)

text \<open>
  C10: \<open>create_worktree\<close> creates the target directory before it invokes git and does
  nothing after git has failed. Whenever it fails with "Failed to create worktree", the
  calls it made are the branch check, \<open>mkdir\<close> of the target and \<open>git worktree add\<close>, in
  this order, and the target directory exists afterwards, whether or not it existed
  before; this on a machine where a successful \<open>mkdir\<close> leaves the directory in place and
  the failed git command does not remove it.
\<close>

theorem create_worktree_failure_keeps_target:
  assumes fails: "create_worktree os repo_root target name st
                    = (Inl (VaihdeError (''Failed to create worktree: '' @ msg)), st')"
    and mkdir_ok: "\<forall>w w'. mkdir_parents os target w = (None, w') \<longrightarrow> path_exists os w' target"
    and git_keeps: "\<forall>w out w'.
          subprocess_run os (worktree_add_args name (joinpath target name)) repo_root False w
            = (out, w') \<longrightarrow>
          path_exists os w target \<longrightarrow> path_exists os w' target"
  shows "path_exists os (world st') target \<and>
         trace st' = trace st @
           [Subprocess (show_ref_args name) repo_root False,
            Mkdir target,
            Subprocess (worktree_add_args name (joinpath target name)) repo_root False]"
proof -
  let ?wp = "joinpath target name"
  from fails have nex: "\<not> path_exists os (world st) ?wp"
    by (auto simp: create_worktree_def Let_def)
  obtain b st1 where be: "branch_exists os repo_root name st = (b, st1)"
    by (cases "branch_exists os repo_root name st")
  from fails nex be have b: "b = Inr False"
    using branch_exists_no_vaihde [of os repo_root name st]
    by (auto simp: create_worktree_def Let_def split: sum.splits bool.splits if_splits)
  obtain m st2 where mk: "do_mkdir os target st1 = (m, st2)"
    by (cases "do_mkdir os target st1")
  from fails nex be b mk have m: "m = None"
    by (auto simp: create_worktree_def Let_def split: option.splits)
  obtain out st3 where rp: "run_process os (worktree_add_args name ?wp) repo_root False st2 = (out, st3)"
    by (cases "run_process os (worktree_add_args name ?wp) repo_root False st2")
  from fails nex be b mk m rp have st3: "st3 = st'"
    by (auto simp: create_worktree_def Let_def split: proc_outcome.splits if_splits)
  from mk m mkdir_ok have ex2: "path_exists os (world st2) target"
    by (metis do_mkdir_trace)
  from rp git_keeps ex2 have ex3: "path_exists os (world st3) target"
    by (metis run_process_trace)
  have tr: "trace st3 = trace st @
           [Subprocess (show_ref_args name) repo_root False, Mkdir target,
            Subprocess (worktree_add_args name ?wp) repo_root False]"
    using branch_exists_trace [OF be] do_mkdir_trace [OF mk] run_process_trace [OF rp] by simp
  from ex3 tr st3 show ?thesis by simp
qed


lemma sim_create_HEAD:
  "create_worktree sim_os ''/repo'' ''/wt'' ''HEAD'' (sim_state [])
     = (Inl (VaihdeError (''Failed to create worktree: '' @ ''fatal: not a valid branch name'')),
        \<lparr>world = [''/wt''], log = [],
         trace = [Subprocess (show_ref_args ''HEAD'') ''/repo'' False, Mkdir ''/wt'',
                  Subprocess (worktree_add_args ''HEAD'' ''/wt/HEAD'') ''/repo'' False]\<rparr>)"
  by (simp add: create_worktree_def branch_exists_def do_mkdir_def run_process_def sim_os_def
      sim_subprocess_def show_ref_args_def worktree_add_args_def sim_state_def sim_joinpath_wt
      strip_def is_space_def Let_def)

theorem create_worktree_failure_keeps_target_witness:
  "\<not> path_exists sim_os (world (sim_state [])) ''/wt'' \<and>
   path_exists sim_os
     (world (snd (create_worktree sim_os ''/repo'' ''/wt'' ''HEAD'' (sim_state [])))) ''/wt'' \<and>
   trace (snd (create_worktree sim_os ''/repo'' ''/wt'' ''HEAD'' (sim_state [])))
     = [Subprocess (show_ref_args ''HEAD'') ''/repo'' False, Mkdir ''/wt'',
        Subprocess (worktree_add_args ''HEAD'' ''/wt/HEAD'') ''/repo'' False]"
proof -
  have a: "\<forall>w w'. mkdir_parents sim_os ''/wt'' w = (None, w') \<longrightarrow> path_exists sim_os w' ''/wt''"
    by (auto simp: sim_os_def)
  have b: "\<forall>w out w'.
          subprocess_run sim_os (worktree_add_args ''HEAD'' (joinpath ''/wt'' ''HEAD'')) ''/repo'' False w
            = (out, w') \<longrightarrow>
          path_exists sim_os w ''/wt'' \<longrightarrow> path_exists sim_os w' ''/wt''"
    by (auto simp: sim_os_def sim_subprocess_def worktree_add_args_def)
  have c: "\<not> path_exists sim_os (world (sim_state [])) ''/wt''"
    by (simp add: sim_os_def sim_state_def)
  show ?thesis
    using create_worktree_failure_keeps_target [OF sim_create_HEAD a b] c
    by (simp add: sim_create_HEAD sim_joinpath_wt)
qed

text \<open>
  C6: when config discovery finds no config file, \<open>new\<close> returns exit code 1 and does not
  create a worktree: the only calls it makes are the two \<open>git rev-parse\<close> queries (no
  \<open>mkdir\<close>, no \<open>git worktree add\<close>, no copy), and the world is the one these queries left.
\<close>

theorem cmd_new_without_config:
  assumes root: "get_git_root os None st = (Inr git_root, st0)"
    and none: "find_config os None (emit DEBUG ''Git root: %s'' [LStr git_root] st0)
                 = (Inr None, st2)"
  shows "fst (cmd_new os name st) = Inr 1 \<and>
         fst (run_new os name st) = Inr 1 \<and>
         world (snd (run_new os name st)) = world st2 \<and>
         trace (snd (run_new os name st)) = trace st @
           [Subprocess rev_parse_args (cwd os) False,
            Subprocess rev_parse_args (resolve os (cwd os)) False]"
proof -
  have c: "cmd_new os name st =
     (Inr 1, emit ERROR ''Create vaihde.toml in your git repo, or: %s''
               [LStr (get_global_config_path os git_root)]
               (emit ERROR ''No vaihde.toml config found'' [] st2))"
    using root none by (simp add: cmd_new_def Let_def)
  have t0: "trace st0 = trace st @ [Subprocess rev_parse_args (cwd os) False]"
    using root
    by (auto simp: get_git_root_def Let_def split: prod.splits proc_outcome.splits if_splits
        dest: run_process_trace)
  have t2: "trace st2 = trace st0 @ [Subprocess rev_parse_args (resolve os (cwd os)) False]"
    using none
    by (auto simp: find_config_def get_git_root_def Let_def trace_emit
        split: prod.splits proc_outcome.splits if_splits sum.splits exc.splits
        dest!: run_process_trace)
  show ?thesis
    using c t0 t2 by (simp add: run_new_def world_emit trace_emit)
qed


lemma sim_resolve_repo: "resolve sim_os ''/repo'' = ''/repo''"
  by (simp add: sim_os_def Path_def path_root_def path_parts_def path_str_def sep_def)

lemma sim_cwd: "cwd sim_os = ''/repo''"
  by (simp add: sim_os_def)

lemma sim_git_root_cwd:
  "get_git_root sim_os None st =
     (Inr ''/repo'', st\<lparr>world := world st, trace := trace st @ [Subprocess rev_parse_args ''/repo'' False]\<rparr>)"
  by (simp add: get_git_root_def run_process_def sim_os_def sim_subprocess_def rev_parse_args_def
      Let_def Path_def path_root_def path_parts_def path_str_def strip_def is_space_def sep_def)

lemma sim_global_path: "get_global_config_path sim_os ''/repo'' = ''/home/dev/.config/vaihde/repo.toml''"
  by (simp add: get_global_config_path_def sim_os_def mangle_path_def lstrip_sep_def joinpath_def
      posix_join_def Path_def path_root_def path_parts_def path_str_def sep_def)

lemma sim_local_path: "get_local_config_path ''/repo'' = ''/repo/vaihde.toml''"
  by (simp add: get_local_config_path_def joinpath_def posix_join_def Path_def path_root_def
      path_parts_def path_str_def sep_def)

lemma sim_path_exists: "path_exists sim_os w p = (p \<in> set w)"
  by (simp add: sim_os_def)

theorem cmd_new_without_config_witness:
  "fst (cmd_new sim_os ''feature'' (sim_state [])) = Inr 1 \<and>
   fst (run_new sim_os ''feature'' (sim_state [])) = Inr 1 \<and>
   world (snd (run_new sim_os ''feature'' (sim_state []))) = [] \<and>
   trace (snd (run_new sim_os ''feature'' (sim_state []))) =
     [Subprocess rev_parse_args ''/repo'' False, Subprocess rev_parse_args ''/repo'' False]"
proof -
  let ?st0 = "\<lparr>world = [], log = [], trace = [Subprocess rev_parse_args ''/repo'' False]\<rparr> :: path list state"
  let ?st2 = "\<lparr>world = [], log = [(DEBUG, ''Git root: %s'', [LStr ''/repo''])],
              trace = [Subprocess rev_parse_args ''/repo'' False,
                       Subprocess rev_parse_args ''/repo'' False]\<rparr> :: path list state"
  have a: "get_git_root sim_os None (sim_state []) = (Inr ''/repo'', ?st0)"
    by (simp add: sim_git_root_cwd sim_state_def)
  have b: "find_config sim_os None (emit DEBUG ''Git root: %s'' [LStr ''/repo''] ?st0)
             = (Inr None, ?st2)"
    by (simp add: find_config_def sim_cwd sim_resolve_repo sim_rev_parse_repo sim_global_path
        sim_local_path sim_path_exists emit_def Let_def)
  show ?thesis
    using cmd_new_without_config [OF a b, of "''feature''"]
    by (simp add: sim_state_def sim_cwd sim_resolve_repo)
qed

section \<open>Properties of the file copy\<close>

lemma do_copy2_trace:
  "do_copy2 os src dst st = (r, st') \<Longrightarrow>
     trace st' = trace st @ [Copy2 src dst] \<and> log st' = log st \<and>
     (r, world st') = copy2 os src dst (world st)"
  by (auto simp: do_copy2_def Let_def split: prod.splits)

lemma copy_loop_missing:
  "\<not> path_exists os (world st) (joinpath src_dir f) \<Longrightarrow>
   copy_loop os src_dir dst_dir (TStr f # fs) st =
   copy_loop os src_dir dst_dir fs (emit INFO ''Skipping %s (not found in source)'' [LStr f] st)"
  by (simp add: Let_def)

lemma copy_loop_mkdir_fails:
  "path_exists os (world st) (joinpath src_dir f) \<Longrightarrow>
   do_mkdir os (parent (joinpath dst_dir f)) st = (Some (OSError m), st1) \<Longrightarrow>
   copy_loop os src_dir dst_dir (TStr f # fs) st =
   copy_loop os src_dir dst_dir fs (emit WARNING ''Failed to copy %s: %s'' [LStr f, LStr m] st1)"
  by (simp add: Let_def)

lemma copy_loop_copy2_fails:
  "path_exists os (world st) (joinpath src_dir f) \<Longrightarrow>
   do_mkdir os (parent (joinpath dst_dir f)) st = (None, st1) \<Longrightarrow>
   do_copy2 os (joinpath src_dir f) (joinpath dst_dir f) st1 = (Some (OSError m), st2) \<Longrightarrow>
   copy_loop os src_dir dst_dir (TStr f # fs) st =
   copy_loop os src_dir dst_dir fs (emit WARNING ''Failed to copy %s: %s'' [LStr f, LStr m] st2)"
  by (simp add: Let_def)

lemma copy_loop_copied:
  "path_exists os (world st) (joinpath src_dir f) \<Longrightarrow>
   do_mkdir os (parent (joinpath dst_dir f)) st = (None, st1) \<Longrightarrow>
   do_copy2 os (joinpath src_dir f) (joinpath dst_dir f) st1 = (None, st2) \<Longrightarrow>
   copy_loop os src_dir dst_dir (TStr f # fs) st =
   copy_loop os src_dir dst_dir fs (emit DEBUG ''Copied %s'' [LStr f] st2)"
  by (simp add: Let_def)

lemma copy_loop_total:
  assumes mk: "\<forall>p w e. fst (mkdir_parents os p w) = Some e \<longrightarrow> (\<exists>m. e = OSError m)"
    and cp: "\<forall>s d w e. fst (copy2 os s d w) = Some e \<longrightarrow> (\<exists>m. e = OSError m)"
  shows "\<exists>st' recs. copy_loop os src_dir dst_dir (map TStr files) st = (Inr (), st') \<and>
           log st' = log st @ recs \<and>
           map (\<lambda>r. hd (snd (snd r))) recs = map LStr files"
proof (induction files arbitrary: st)
  case Nil
  then show ?case by simp
next
  case (Cons f files)
  let ?src = "joinpath src_dir f" and ?dst = "joinpath dst_dir f"
  have step: "\<exists>l fmt args sta. copy_loop os src_dir dst_dir (TStr f # map TStr files) st =
                 copy_loop os src_dir dst_dir (map TStr files) (emit l fmt (LStr f # args) sta) \<and>
                 log sta = log st"
  proof (cases "path_exists os (world st) ?src")
    case False
    then show ?thesis using copy_loop_missing by blast
  next
    case True
    obtain r1 st1 where m: "do_mkdir os (parent ?dst) st = (r1, st1)"
      by (cases "do_mkdir os (parent ?dst) st")
    note m1 = do_mkdir_trace [OF m]
    show ?thesis
    proof (cases r1)
      case (Some e)
      with m1 mk obtain msg where "e = OSError msg" by (metis fst_conv)
      with Some m True m1 show ?thesis using copy_loop_mkdir_fails by blast
    next
      case None
      obtain r2 st2 where c: "do_copy2 os ?src ?dst st1 = (r2, st2)"
        by (cases "do_copy2 os ?src ?dst st1")
      note c1 = do_copy2_trace [OF c]
      show ?thesis
      proof (cases r2)
        case (Some e)
        with c1 cp obtain msg where "e = OSError msg" by (metis fst_conv)
        with Some c None m True m1 c1 show ?thesis
          using copy_loop_copy2_fails [of os st src_dir f dst_dir st1 msg st2] by auto
      next
        case n2: None
        with c None m True m1 c1 show ?thesis
          using copy_loop_copied [of os st src_dir f dst_dir st1 st2] by auto
      qed
    qed
  qed
  then obtain l fmt args sta where
    eq: "copy_loop os src_dir dst_dir (TStr f # map TStr files) st =
           copy_loop os src_dir dst_dir (map TStr files) (emit l fmt (LStr f # args) sta)"
    and lg: "log sta = log st" by blast
  from Cons.IH [of "emit l fmt (LStr f # args) sta"] obtain st' recs where
    r: "copy_loop os src_dir dst_dir (map TStr files) (emit l fmt (LStr f # args) sta) = (Inr (), st')"
    and l': "log st' = log (emit l fmt (LStr f # args) sta) @ recs"
    and mp: "map (\<lambda>r. hd (snd (snd r))) recs = map LStr files" by blast
  have "log st' = log st @ ((l, fmt, LStr f # args) # recs)"
    using l' lg by (simp add: log_emit)
  moreover have "map (\<lambda>r. hd (snd (snd r))) ((l, fmt, LStr f # args) # recs) = map LStr (f # files)"
    using mp by simp
  ultimately show ?case using eq r by (metis list.simps(9))
qed


text \<open>
  C7: for every list of file names, \<open>copy_files\<close> returns normally, on a machine whose
  \<open>mkdir\<close> and \<open>copy2\<close> fail with \<open>OSError\<close> only (permissions, I/O). It logs one record
  for each entry, in the order of the list. An entry whose source does not exist is skipped
  with an INFO record and nothing else; an entry for which \<open>mkdir\<close> or \<open>copy2\<close> raises
  \<open>OSError\<close> gets a WARNING record; in each case the loop goes on with the rest of the
  list.
\<close>

theorem copy_files_never_aborts:
  assumes mk: "\<forall>p w e. fst (mkdir_parents os p w) = Some e \<longrightarrow> (\<exists>m. e = OSError m)"
    and cp: "\<forall>s d w e. fst (copy2 os s d w) = Some e \<longrightarrow> (\<exists>m. e = OSError m)"
  shows "(\<exists>st' recs.
            copy_files os src_dir dst_dir (TArr (map TStr files)) st = (Inr (), st') \<and>
            log st' = log st @ recs \<and>
            map (\<lambda>r. hd (snd (snd r))) recs = map LStr files) \<and>
         (\<not> path_exists os (world st) (joinpath src_dir f) \<longrightarrow>
            copy_files os src_dir dst_dir (TArr (map TStr (f # files))) st =
            copy_files os src_dir dst_dir (TArr (map TStr files))
              (emit INFO ''Skipping %s (not found in source)'' [LStr f] st)) \<and>
         (path_exists os (world st) (joinpath src_dir f) \<and>
          do_mkdir os (parent (joinpath dst_dir f)) st = (Some (OSError m), st1) \<longrightarrow>
            copy_files os src_dir dst_dir (TArr (map TStr (f # files))) st =
            copy_files os src_dir dst_dir (TArr (map TStr files))
              (emit WARNING ''Failed to copy %s: %s'' [LStr f, LStr m] st1)) \<and>
         (path_exists os (world st) (joinpath src_dir f) \<and>
          do_mkdir os (parent (joinpath dst_dir f)) st = (None, st1) \<and>
          do_copy2 os (joinpath src_dir f) (joinpath dst_dir f) st1 = (Some (OSError m), st2) \<longrightarrow>
            copy_files os src_dir dst_dir (TArr (map TStr (f # files))) st =
            copy_files os src_dir dst_dir (TArr (map TStr files))
              (emit WARNING ''Failed to copy %s: %s'' [LStr f, LStr m] st2))"
  using copy_loop_total [OF mk cp, of src_dir dst_dir files st]
  by (simp add: copy_files_def copy_loop_missing copy_loop_mkdir_fails copy_loop_copy2_fails
      del: copy_loop.simps)

lemma sim_joinpath_copy:
  "joinpath ''/repo'' ''missing'' = ''/repo/missing''"
  "joinpath ''/repo'' ''locked'' = ''/repo/locked''"
  "joinpath ''/wt/feature'' ''locked'' = ''/wt/feature/locked''"
  "parent ''/wt/feature/locked'' = ''/wt/feature''"
  by (simp_all add: joinpath_def parent_def posix_join_def Path_def path_root_def path_parts_def
      path_str_def sep_def)

theorem copy_files_never_aborts_witness:
  "(\<exists>st' recs.
      copy_files sim_os ''/repo'' ''/wt/feature'' (TArr (map TStr [''missing'', ''locked'', ''.env'']))
        (sim_state [''/repo/locked'', ''/repo/.env'']) = (Inr (), st') \<and>
      log st' = recs \<and>
      map (\<lambda>r. hd (snd (snd r))) recs = [LStr ''missing'', LStr ''locked'', LStr ''.env'']) \<and>
   copy_files sim_os ''/repo'' ''/wt/feature'' (TArr (map TStr [''missing'', ''locked'', ''.env'']))
     (sim_state [''/repo/locked'', ''/repo/.env'']) =
   copy_files sim_os ''/repo'' ''/wt/feature'' (TArr (map TStr [''locked'', ''.env'']))
     (emit INFO ''Skipping %s (not found in source)'' [LStr ''missing'']
        (sim_state [''/repo/locked'', ''/repo/.env''])) \<and>
   copy_files sim_os ''/repo'' ''/wt/feature'' (TArr (map TStr [''locked'', ''.env'']))
     (sim_state [''/repo/locked'', ''/repo/.env'']) =
   copy_files sim_os ''/repo'' ''/wt/feature'' (TArr (map TStr [''.env'']))
     (emit WARNING ''Failed to copy %s: %s'' [LStr ''locked'', LStr ''Permission denied'']
        \<lparr>world = [''/wt/feature'', ''/repo/locked'', ''/repo/.env''], log = [],
         trace = [Mkdir ''/wt/feature'', Copy2 ''/repo/locked'' ''/wt/feature/locked'']\<rparr>)"
proof -
  let ?st = "sim_state [''/repo/locked'', ''/repo/.env'']"
  let ?st1 = "\<lparr>world = [''/wt/feature'', ''/repo/locked'', ''/repo/.env''], log = [],
              trace = [Mkdir ''/wt/feature'']\<rparr> :: path list state"
  let ?st2 = "\<lparr>world = [''/wt/feature'', ''/repo/locked'', ''/repo/.env''], log = [],
              trace = [Mkdir ''/wt/feature'', Copy2 ''/repo/locked'' ''/wt/feature/locked'']\<rparr>
              :: path list state"
  have mk: "\<forall>p w e. fst (mkdir_parents sim_os p w) = Some e \<longrightarrow> (\<exists>m. e = OSError m)"
    by (simp add: sim_os_def)
  have cp: "\<forall>s d w e. fst (copy2 sim_os s d w) = Some e \<longrightarrow> (\<exists>m. e = OSError m)"
    by (auto simp: sim_os_def)
  have miss: "\<not> path_exists sim_os (world ?st) (joinpath ''/repo'' ''missing'')"
    by (simp add: sim_joinpath_copy sim_path_exists sim_state_def)
  have ex: "path_exists sim_os (world ?st) (joinpath ''/repo'' ''locked'')"
    by (simp add: sim_joinpath_copy sim_path_exists sim_state_def)
  have m1: "do_mkdir sim_os (parent (joinpath ''/wt/feature'' ''locked'')) ?st = (None, ?st1)"
    by (simp add: sim_joinpath_copy do_mkdir_def sim_os_def sim_state_def)
  have c2: "do_copy2 sim_os (joinpath ''/repo'' ''locked'') (joinpath ''/wt/feature'' ''locked'') ?st1
              = (Some (OSError ''Permission denied''), ?st2)"
    by (simp add: sim_joinpath_copy do_copy2_def sim_os_def)
  have l0: "log ?st = []" by (simp add: sim_state_def)
  show ?thesis
    using copy_files_never_aborts [OF mk cp, of "''/repo''" "''/wt/feature''"
        "[''missing'', ''locked'', ''.env'']" ?st]
      copy_files_never_aborts [OF mk cp, of "''/repo''" "''/wt/feature''"
        "[''locked'', ''.env'']" ?st "''missing''"]
      copy_files_never_aborts [OF mk cp, of "''/repo''" "''/wt/feature''"
        "[''.env'']" ?st "''locked''" "''Permission denied''" ?st1 ?st2]
      miss ex m1 c2 l0
    by (simp del: copy_loop.simps)
qed

section \<open>Properties of the post-commands\<close>

lemma run_loop_step:
  assumes a: "command_args os cmd = Inr args"
    and c: "\<forall>w. \<exists>rc so se. fst (subprocess_run os args d (py_truthy (shell cmd)) w) = Completed rc so se"
  shows "\<exists>sta. run_loop os d (cmd # cmds) st = run_loop os d cmds sta \<and>
               trace sta = trace st @ [Subprocess args d (py_truthy (shell cmd))]"
proof -
  let ?st0 = "emit DEBUG ''Running: %s'' [LVal (run cmd)] st"
  obtain out st1 where rp: "run_process os args d (py_truthy (shell cmd)) ?st0 = (out, st1)"
    by (cases "run_process os args d (py_truthy (shell cmd)) ?st0")
  note t = run_process_trace [OF rp]
  from c obtain rc so se where
    "fst (subprocess_run os args d (py_truthy (shell cmd)) (world ?st0)) = Completed rc so se"
    by blast
  with t have out: "out = Completed rc so se" by (metis fst_conv)
  have t1: "trace st1 = trace st @ [Subprocess args d (py_truthy (shell cmd))]"
    using t by (simp add: trace_emit)
  show ?thesis
  proof (cases "rc = 0")
    case True
    then have "run_loop os d (cmd # cmds) st = run_loop os d cmds st1"
      using a rp out by (simp add: Let_def)
    with t1 show ?thesis by blast
  next
    case False
    let ?st2 = "emit WARNING ''Command failed with exit code %d'' [LInt rc] st1"
    let ?st3 = "if se \<noteq> [] then emit WARNING ''  %s'' [LStr (strip se)] ?st2 else ?st2"
    have "run_loop os d (cmd # cmds) st = run_loop os d cmds ?st3"
      using a rp out False by (simp add: Let_def)
    moreover have "trace ?st3 = trace st @ [Subprocess args d (py_truthy (shell cmd))]"
      using t1 by (simp add: trace_emit)
    ultimately show ?thesis by blast
  qed
qed

lemma run_loop_all_run:
  assumes "\<forall>cmd \<in> set commands. \<exists>args. command_args os cmd = Inr args \<and>
             (\<forall>w. \<exists>rc so se.
                fst (subprocess_run os args d (py_truthy (shell cmd)) w) = Completed rc so se)"
  shows "\<exists>st' calls. run_loop os d commands st = (Inr (), st') \<and>
           trace st' = trace st @ calls \<and>
           map Some calls = map (command_call os d) commands"
  using assms
proof (induction commands arbitrary: st)
  case Nil
  then show ?case by simp
next
  case (Cons cmd cmds)
  from Cons.prems obtain args where a: "command_args os cmd = Inr args"
    and c: "\<forall>w. \<exists>rc so se.
              fst (subprocess_run os args d (py_truthy (shell cmd)) w) = Completed rc so se"
    by auto
  from run_loop_step [OF a c, of cmds st] obtain sta where
    eq: "run_loop os d (cmd # cmds) st = run_loop os d cmds sta"
    and tr: "trace sta = trace st @ [Subprocess args d (py_truthy (shell cmd))]" by blast
  from Cons.prems have rest: "\<forall>cmd \<in> set cmds. \<exists>args. command_args os cmd = Inr args \<and>
             (\<forall>w. \<exists>rc so se.
                fst (subprocess_run os args d (py_truthy (shell cmd)) w) = Completed rc so se)"
    by simp
  from Cons.IH [OF rest, of sta] obtain st' calls where
    r: "run_loop os d cmds sta = (Inr (), st')"
    and t': "trace st' = trace sta @ calls"
    and m: "map Some calls = map (command_call os d) cmds" by blast
  have cc: "command_call os d cmd = Some (Subprocess args d (py_truthy (shell cmd)))"
    using a by (simp add: command_call_def)
  have "trace st' = trace st @ (Subprocess args d (py_truthy (shell cmd)) # calls)"
    using t' tr by simp
  moreover have "map Some (Subprocess args d (py_truthy (shell cmd)) # calls)
                   = map (command_call os d) (cmd # cmds)"
    using m cc by simp
  ultimately show ?case using eq r by metis
qed

text \<open>
  C4: when \<open>new\<close> has created the worktree and copied the files, and every post-command
  of the config can be started (it yields an exit status, zero or not), then every
  post-command is run, in the order of the list, whatever the exit statuses of the earlier
  ones are, and \<open>new\<close> returns exit code 0.
\<close>

theorem post_commands_all_run:
  assumes root: "get_git_root os None st = (Inr git_root, st0)"
    and found: "find_config os None (emit DEBUG ''Git root: %s'' [LStr git_root] st0)
                  = (Inr (Some config_path), st2)"
    and loaded: "load_config os config_path (world st2) = Inr config"
    and created: "create_worktree os git_root (worktree_root config) name
                    (emit DEBUG ''Creating worktree '%s' in %s''
                       [LStr name, LStr (worktree_root config)]
                       (emit DEBUG ''Using config: %s'' [LStr config_path] st2))
                  = (Inr worktree_path, st5)"
    and copied: "(if py_truthy (config_copy_files config)
                  then copy_files os git_root worktree_path (config_copy_files config)
                         (emit DEBUG ''Copying files...'' []
                            (emit INFO ''Created worktree: %s'' [LStr worktree_path] st5))
                  else (Inr (), emit INFO ''Created worktree: %s'' [LStr worktree_path] st5))
                 = (Inr (), st7)"
    and runs: "\<forall>cmd \<in> set (post_commands config). \<exists>args. command_args os cmd = Inr args \<and>
                 (\<forall>w. \<exists>rc so se.
                    fst (subprocess_run os args worktree_path (py_truthy (shell cmd)) w)
                      = Completed rc so se)"
  shows "\<exists>st8 calls. cmd_new os name st = (Inr 0, st8) \<and>
           run_new os name st = (Inr 0, st8) \<and>
           trace st8 = trace st7 @ calls \<and>
           map Some calls = map (command_call os worktree_path) (post_commands config)"
proof -
  let ?st7' = "emit DEBUG ''Running post-commands...'' [] st7"
  from run_loop_all_run [OF runs, of ?st7'] obtain st8 calls where
    r: "run_loop os worktree_path (post_commands config) ?st7' = (Inr (), st8)"
    and t: "trace st8 = trace ?st7' @ calls"
    and m: "map Some calls = map (command_call os worktree_path) (post_commands config)"
    by blast
  show ?thesis
  proof (cases "post_commands config = []")
    case True
    then have "cmd_new os name st = (Inr 0, st7)"
      using root found loaded created copied
      by (simp add: cmd_new_def Let_def world_emit del: run_loop.simps copy_loop.simps)
    then show ?thesis using True by (simp add: run_new_def)
  next
    case False
    then have "cmd_new os name st = (Inr 0, st8)"
      using root found loaded created copied r
      by (simp add: cmd_new_def run_commands_def Let_def world_emit
          del: run_loop.simps copy_loop.simps)
    then show ?thesis using t m by (simp add: run_new_def trace_emit)
  qed
qed


lemma sim_toml_fields:
  "cwd (sim_os_toml d) = ''/repo''"
  "resolve (sim_os_toml d) = resolve sim_os"
  "path_exists (sim_os_toml d) = path_exists sim_os"
  "subprocess_run (sim_os_toml d) = sim_subprocess"
  "mkdir_parents (sim_os_toml d) p w = (None, p # w)"
  "toml_loads (sim_os_toml d) t = Inr d"
  "expanduser (sim_os_toml d) = Inr"
  by (simp_all add: sim_os_toml_def sim_os_def)

lemma sim_toml_git_root:
  "get_git_root (sim_os_toml d) None st = get_git_root sim_os None st"
  "get_git_root (sim_os_toml d) (Some p) st = get_git_root sim_os (Some p) st"
  by (simp_all add: get_git_root_def run_process_def sim_os_toml_def sim_os_def)

lemma sim_toml_global_path:
  "get_global_config_path (sim_os_toml d) ''/repo'' = ''/home/dev/.config/vaihde/repo.toml''"
  using sim_global_path by (simp add: get_global_config_path_def sim_os_toml_def sim_os_def)

lemma sim_load_post:
  "load_config (sim_os_toml sim_post_data) ''/repo/vaihde.toml'' [''/repo/vaihde.toml'']
     = Inr sim_post_config"
  by (simp add: load_config_def load_data_def sim_os_toml_def sim_os_def sim_post_data_def
      sim_post_config_def Path_def path_root_def path_parts_def path_str_def sep_def Let_def)

lemma sim_joinpath_feature: "joinpath ''/wt'' ''feature'' = ''/wt/feature''"
  by (simp add: joinpath_def posix_join_def Path_def path_root_def path_parts_def path_str_def
      sep_def)

lemma sim_create_feature:
  "create_worktree (sim_os_toml d) ''/repo'' ''/wt'' ''feature''
     \<lparr>world = [''/repo/vaihde.toml''], log = l, trace = t\<rparr>
   = (Inr ''/wt/feature'',
      \<lparr>world = [''/wt/feature'', ''/wt'', ''/repo/vaihde.toml''], log = l,
       trace = t @ [Subprocess (show_ref_args ''feature'') ''/repo'' False, Mkdir ''/wt'',
                    Subprocess (worktree_add_args ''feature'' ''/wt/feature'') ''/repo'' False]\<rparr>)"
  by (simp add: create_worktree_def branch_exists_def do_mkdir_def run_process_def
      sim_toml_fields sim_path_exists sim_subprocess_def show_ref_args_def worktree_add_args_def
      sim_joinpath_feature Let_def)

theorem post_commands_all_run_witness:
  "\<exists>st8 calls.
     cmd_new (sim_os_toml sim_post_data) ''feature'' (sim_state [''/repo/vaihde.toml''])
       = (Inr 0, st8) \<and>
     run_new (sim_os_toml sim_post_data) ''feature'' (sim_state [''/repo/vaihde.toml''])
       = (Inr 0, st8) \<and>
     trace st8 =
       [Subprocess rev_parse_args ''/repo'' False, Subprocess rev_parse_args ''/repo'' False,
        Subprocess (show_ref_args ''feature'') ''/repo'' False, Mkdir ''/wt'',
        Subprocess (worktree_add_args ''feature'' ''/wt/feature'') ''/repo'' False] @ calls \<and>
     map Some calls =
       [Some (Subprocess (Argv [''false'']) ''/wt/feature'' False),
        Some (Subprocess (RawArgs (TStr ''exit 3'')) ''/wt/feature'' True),
        Some (Subprocess (Argv [''true'']) ''/wt/feature'' False)]"
proof -
  let ?os = "sim_os_toml sim_post_data"
  let ?w = "[''/repo/vaihde.toml'']"
  let ?rp = "Subprocess rev_parse_args ''/repo'' False"
  let ?st0 = "\<lparr>world = ?w, log = [], trace = [?rp]\<rparr> :: path list state"
  let ?l2 = "[(DEBUG, ''Git root: %s'', [LStr ''/repo''])]"
  let ?st2 = "\<lparr>world = ?w, log = ?l2, trace = [?rp, ?rp]\<rparr> :: path list state"
  let ?l4 = "?l2 @ [(DEBUG, ''Using config: %s'', [LStr ''/repo/vaihde.toml'']),
                    (DEBUG, ''Creating worktree '%s' in %s'', [LStr ''feature'', LStr ''/wt''])]"
  let ?t5 = "[?rp, ?rp, Subprocess (show_ref_args ''feature'') ''/repo'' False, Mkdir ''/wt'',
              Subprocess (worktree_add_args ''feature'' ''/wt/feature'') ''/repo'' False]"
  let ?st5 = "\<lparr>world = [''/wt/feature'', ''/wt'', ''/repo/vaihde.toml''], log = ?l4,
               trace = ?t5\<rparr> :: path list state"
  let ?st7 = "emit INFO ''Created worktree: %s'' [LStr ''/wt/feature''] ?st5"
  have root: "get_git_root ?os None (sim_state ?w) = (Inr ''/repo'', ?st0)"
    by (simp add: sim_toml_git_root sim_git_root_cwd sim_state_def)
  have found: "find_config ?os None (emit DEBUG ''Git root: %s'' [LStr ''/repo''] ?st0)
                 = (Inr (Some ''/repo/vaihde.toml''), ?st2)"
    by (simp add: find_config_def sim_toml_fields sim_resolve_repo sim_toml_git_root
        sim_rev_parse_repo sim_toml_global_path sim_local_path sim_path_exists emit_def Let_def)
  have loaded: "load_config ?os ''/repo/vaihde.toml'' (world ?st2) = Inr sim_post_config"
    by (simp add: sim_load_post)
  have wr: "worktree_root sim_post_config = ''/wt''"
    and cf: "config_copy_files sim_post_config = TArr []"
    by (simp_all add: sim_post_config_def)
  have created: "create_worktree ?os ''/repo'' (worktree_root sim_post_config) ''feature''
                    (emit DEBUG ''Creating worktree '%s' in %s''
                       [LStr ''feature'', LStr (worktree_root sim_post_config)]
                       (emit DEBUG ''Using config: %s'' [LStr ''/repo/vaihde.toml''] ?st2))
                  = (Inr ''/wt/feature'', ?st5)"
    unfolding wr by (simp add: emit_def sim_create_feature)
  have copied: "(if py_truthy (config_copy_files sim_post_config)
                  then copy_files ?os ''/repo'' ''/wt/feature'' (config_copy_files sim_post_config)
                         (emit DEBUG ''Copying files...'' []
                            (emit INFO ''Created worktree: %s'' [LStr ''/wt/feature''] ?st5))
                  else (Inr (), emit INFO ''Created worktree: %s'' [LStr ''/wt/feature''] ?st5))
                 = (Inr (), ?st7)"
    unfolding cf by simp
  have runs: "\<forall>cmd \<in> set (post_commands sim_post_config).
                 \<exists>args. command_args ?os cmd = Inr args \<and>
                 (\<forall>w. \<exists>rc so se.
                    fst (subprocess_run ?os args ''/wt/feature'' (py_truthy (shell cmd)) w)
                      = Completed rc so se)"
    by (simp add: sim_post_config_def command_args_def sim_os_toml_def sim_os_def
        sim_subprocess_def)
  have calls: "map (command_call ?os ''/wt/feature'') (post_commands sim_post_config) =
       [Some (Subprocess (Argv [''false'']) ''/wt/feature'' False),
        Some (Subprocess (RawArgs (TStr ''exit 3'')) ''/wt/feature'' True),
        Some (Subprocess (Argv [''true'']) ''/wt/feature'' False)]"
    by (simp add: sim_post_config_def command_call_def command_args_def sim_os_toml_def
        sim_os_def)
  have t7: "trace ?st7 = ?t5" by (simp add: emit_def)
  show ?thesis
    using post_commands_all_run [OF root found loaded created copied runs]
    unfolding calls t7 .
qed

section \<open>Properties of config loading\<close>

lemma parse_tables_ok:
  "list_all is_table es \<Longrightarrow> \<forall>e \<in> set es. map_of (table_items e) ''run'' \<noteq> None \<Longrightarrow>
   parse_post_commands p es = Inr (map entry_command es)"
proof (induction es)
  case Nil
  then show ?case by simp
next
  case (Cons e es)
  then obtain kvs where e: "e = TTable kvs" by (cases e) auto
  from Cons.prems e obtain r where r: "map_of kvs ''run'' = Some r" by auto
  from Cons have ih: "parse_post_commands p es = Inr (map entry_command es)" by simp
  show ?case using e r ih by (simp add: entry_command_def)
qed

lemma parse_tables_missing:
  "list_all is_table es \<Longrightarrow> \<exists>e \<in> set es. map_of (table_items e) ''run'' = None \<Longrightarrow>
   parse_post_commands p es = Inl (VaihdeError (''Post command missing 'run' field in '' @ p))"
proof (induction es)
  case Nil
  then show ?case by simp
next
  case (Cons e es)
  then obtain kvs where e: "e = TTable kvs" by (cases e) auto
  show ?case
  proof (cases "map_of kvs ''run''")
    case None
    then show ?thesis using e by simp
  next
    case (Some r)
    with Cons.prems e have "\<exists>e \<in> set es. map_of (table_items e) ''run'' = None" by auto
    with Cons have "parse_post_commands p es
        = Inl (VaihdeError (''Post command missing 'run' field in '' @ p))" by simp
    then show ?thesis using e Some by simp
  qed
qed

lemma load_data_well_shaped:
  assumes ws: "well_shaped data"
    and root: "map_of data ''worktree_root'' = Some (TStr s)"
    and eu: "expanduser os (Path s) = Inr q"
    and rr: "resolve_raises os q = None"
  shows "load_data os p data =
     (case parse_post_commands p (entries_of data) of
        Inl e \<Rightarrow> Inl e
      | Inr cmds \<Rightarrow>
          Inr \<lparr>worktree_root = resolve os q,
               config_copy_files =
                 (case map_of data ''copy'' of
                    None \<Rightarrow> TArr []
                  | Some c \<Rightarrow> (case map_of (table_items c) ''files'' of
                                 None \<Rightarrow> TArr [] | Some v \<Rightarrow> v)),
               post_commands = cmds\<rparr>)"
proof -
  have copy: "(case map_of data ''copy'' of
                 None \<Rightarrow> py_get (TTable []) ''files'' (TArr [])
               | Some c \<Rightarrow> py_get c ''files'' (TArr []))
              = Inr (case map_of data ''copy'' of
                    None \<Rightarrow> TArr []
                  | Some c \<Rightarrow> (case map_of (table_items c) ''files'' of
                                 None \<Rightarrow> TArr [] | Some v \<Rightarrow> v))"
  proof (cases "map_of data ''copy''")
    case None
    then show ?thesis by simp
  next
    case (Some c)
    with ws obtain kvs where "c = TTable kvs" by (cases c) (auto simp: well_shaped_def)
    with Some show ?thesis by simp
  qed
  have iter: "py_iter (case map_of data ''post_commands'' of None \<Rightarrow> TArr [] | Some v \<Rightarrow> v)
              = Inr (entries_of data)"
  proof (cases "map_of data ''post_commands''")
    case None
    then show ?thesis by (simp add: entries_of_def)
  next
    case (Some v)
    with ws obtain xs where "v = TArr xs" by (cases v) (auto simp: well_shaped_def)
    with Some show ?thesis by (simp add: entries_of_def)
  qed
  show ?thesis
    using root eu rr by (simp add: load_data_def Let_def copy iter)
qed

lemma load_data_resolve_raises:
  assumes "map_of data ''worktree_root'' = Some (TStr s)"
    and "expanduser os (Path s) = Inr q"
    and "resolve_raises os q = Some e"
  shows "load_data os p data = Inl (Lib e)"
  using assms by (simp add: load_data_def)

lemma entries_tables: "well_shaped data \<Longrightarrow> list_all is_table (entries_of data)"
  by (auto simp: well_shaped_def entries_of_def split: option.splits toml.splits)

text \<open>
  C5, amended: for parsed data of the shape \<open>well_shaped\<close> (\<open>worktree_root\<close>, if present,
  a string; \<open>copy\<close>, if present, a table; \<open>post_commands\<close>, if present, an array of
  tables) and a \<open>worktree_root\<close> that \<open>expanduser\<close> and \<open>resolve\<close> accept without an
  exception, \<open>load_config\<close> fails with \<open>VaihdeError\<close> if and only if the data lacks the
  \<open>worktree_root\<close> key or some entry of \<open>post_commands\<close> lacks a \<open>run\<close> key; otherwise it
  returns the config whose
  \<open>worktree_root\<close> is expanded and resolved, whose copy files default to the empty list
  and whose post-commands have \<open>shell\<close> false when the key is absent.
\<close>

theorem load_config_invalid_iff:
  assumes rd: "read_text os w p = Inr text" and ld: "toml_loads os text = Inr data"
    and ws: "well_shaped data"
    and eu: "\<forall>s. map_of data ''worktree_root'' = Some (TStr s) \<longrightarrow>
                 (\<exists>q. expanduser os (Path s) = Inr q \<and> resolve_raises os q = None)"
  shows "((\<exists>m. load_config os p w = Inl (VaihdeError m)) \<longleftrightarrow>
            (map_of data ''worktree_root'' = None \<or>
             (\<exists>e \<in> set (entries_of data). map_of (table_items e) ''run'' = None))) \<and>
         (map_of data ''worktree_root'' \<noteq> None \<and>
          (\<forall>e \<in> set (entries_of data). map_of (table_items e) ''run'' \<noteq> None) \<longrightarrow>
            (\<exists>s q. map_of data ''worktree_root'' = Some (TStr s) \<and>
                   expanduser os (Path s) = Inr q \<and> resolve_raises os q = None \<and>
                   load_config os p w =
                     Inr \<lparr>worktree_root = resolve os q,
                          config_copy_files =
                            (case map_of data ''copy'' of
                               None \<Rightarrow> TArr []
                             | Some c \<Rightarrow> (case map_of (table_items c) ''files'' of
                                            None \<Rightarrow> TArr [] | Some v \<Rightarrow> v)),
                          post_commands = map entry_command (entries_of data)\<rparr>))"
proof -
  have lc: "load_config os p w = load_data os p data"
    using rd ld by (simp add: load_config_def)
  show ?thesis
  proof (cases "map_of data ''worktree_root''")
    case None
    then show ?thesis by (simp add: lc load_data_def)
  next
    case (Some v)
    with ws obtain s where v: "v = TStr s" by (cases v) (auto simp: well_shaped_def)
    with Some eu obtain q where q: "expanduser os (Path s) = Inr q"
      and rr: "resolve_raises os q = None" by blast
    from Some v have root: "map_of data ''worktree_root'' = Some (TStr s)" by simp
    note ldw = load_data_well_shaped [OF ws root q rr, of p]
    note tabs = entries_tables [OF ws]
    show ?thesis
    proof (cases "\<exists>e \<in> set (entries_of data). map_of (table_items e) ''run'' = None")
      case True
      from parse_tables_missing [OF tabs True, of p] show ?thesis
        using True root by (simp add: lc ldw)
    next
      case False
      then have all: "\<forall>e \<in> set (entries_of data). map_of (table_items e) ''run'' \<noteq> None"
        by simp
      from parse_tables_ok [OF tabs all, of p] show ?thesis
        using all root q rr by (simp add: lc ldw)
    qed
  qed
qed

text \<open>
  C5, as stated, fails on data outside that shape: the config file \<open>worktree_root = 5\<close>
  has the \<open>worktree_root\<close> key and no post-command, and \<open>load_config\<close> neither returns a
  config nor fails with \<open>VaihdeError\<close>: \<open>Path(5)\<close> raises \<open>TypeError\<close>.
\<close>

theorem load_config_type_error:
  "map_of [(''worktree_root'', TInt 5)] ''worktree_root'' = Some (TInt 5) \<and>
   entries_of [(''worktree_root'', TInt 5)] = [] \<and>
   load_config (sim_os_toml [(''worktree_root'', TInt 5)]) ''/repo/vaihde.toml''
     [''/repo/vaihde.toml''] = Inl (Lib (OtherError ''TypeError''))"
  by (simp add: entries_of_def load_config_def load_data_def sim_os_toml_def sim_os_def)


theorem load_config_invalid_iff_witness:
  "load_config (sim_os_toml sim_post_data) ''/repo/vaihde.toml'' [''/repo/vaihde.toml'']
     = Inr sim_post_config \<and>
   (\<exists>m. load_config (sim_os_toml sim_bad_data) ''/repo/vaihde.toml'' [''/repo/vaihde.toml'']
          = Inl (VaihdeError m))"
proof -
  let ?p = "''/repo/vaihde.toml''" and ?w = "[''/repo/vaihde.toml'']"
  have rd: "read_text (sim_os_toml d) ?w ?p = Inr ''worktree_root = '/wt' ''" for d
    by (simp add: sim_os_toml_def sim_os_def)
  have ld: "toml_loads (sim_os_toml d) ''worktree_root = '/wt' '' = Inr d" for d
    by (simp add: sim_os_toml_def sim_os_def)
  have ws1: "well_shaped sim_post_data"
    by (simp add: well_shaped_def sim_post_data_def)
  have ws2: "well_shaped sim_bad_data"
    by (simp add: well_shaped_def sim_bad_data_def)
  have e1: "entries_of sim_post_data =
              [TTable [(''run'', TStr ''false'')],
               TTable [(''run'', TStr ''exit 3''), (''shell'', TBool True)],
               TTable [(''run'', TStr ''true'')]]"
    by (simp add: entries_of_def sim_post_data_def)
  have e2: "entries_of sim_bad_data =
              [TTable [(''run'', TStr ''true'')], TTable [(''shell'', TBool True)]]"
    by (simp add: entries_of_def sim_bad_data_def)
  have r1: "map_of sim_post_data ''worktree_root'' = Some (TStr ''/wt'')"
    and c1: "map_of sim_post_data ''copy'' = None"
    by (simp_all add: sim_post_data_def)
  have r2: "map_of sim_bad_data ''worktree_root'' = Some (TStr ''/wt'')"
    by (simp add: sim_bad_data_def)
  have px: "resolve (sim_os_toml d) q = Path q" "expanduser (sim_os_toml d) q = Inr q" for d q
    by (simp_all add: sim_os_toml_def sim_os_def)
  have pw: "Path ''/wt'' = ''/wt''"
    by (simp add: Path_def path_root_def path_parts_def path_str_def sep_def)
  have rr: "resolve_raises (sim_os_toml d) ''/wt'' = None" for d
    by (simp add: sim_os_toml_def sim_os_def)
  have eu1: "\<forall>s. map_of sim_post_data ''worktree_root'' = Some (TStr s) \<longrightarrow>
               (\<exists>q. expanduser (sim_os_toml sim_post_data) (Path s) = Inr q \<and>
                    resolve_raises (sim_os_toml sim_post_data) q = None)"
    by (simp add: r1 px pw rr)
  have eu2: "\<forall>s. map_of sim_bad_data ''worktree_root'' = Some (TStr s) \<longrightarrow>
               (\<exists>q. expanduser (sim_os_toml sim_bad_data) (Path s) = Inr q \<and>
                    resolve_raises (sim_os_toml sim_bad_data) q = None)"
    by (simp add: r2 px pw rr)
  have good: "load_config (sim_os_toml sim_post_data) ?p ?w = Inr sim_post_config"
    using load_config_invalid_iff [OF rd ld ws1 eu1]
    by (simp add: e1 r1 c1 px pw rr entry_command_def sim_post_config_def)
  have bad: "\<exists>m. load_config (sim_os_toml sim_bad_data) ?p ?w = Inl (VaihdeError m)"
    using load_config_invalid_iff [OF rd ld ws2 eu2]
    by (simp add: e2 r2)
  from good bad show ?thesis by simp
qed

end
